theory Spec2Isabelle
  imports Complex_Main "HOL-Library.Signed_Division"
begin

section \<open>eqk: the earthquake lister of \<^verbatim>\<open>main.go\<close>\<close>

text \<open>
  The program fetches the USGS feed of significant earthquakes, decodes it and prints
  every earthquake whose magnitude exceeds a threshold given on the command line.
  The functions of \<^verbatim>\<open>main.go\<close> are embedded one by one (section "The program");
  what they call in Go's standard library (\<^verbatim>\<open>fmt\<close>, \<^verbatim>\<open>time\<close>,
  \<^verbatim>\<open>encoding/json\<close>) is modelled first, from the documented behaviour of those
  packages. \<^verbatim>\<open>strconv.ParseFloat\<close> is a parameter of the model.
\<close>

section \<open>Decimal text\<close>

definition digit :: "nat \<Rightarrow> char" where
  "digit d = ''0123456789'' ! d"

fun showNat :: "nat \<Rightarrow> string" where
  "showNat n = (if n < 10 then [digit n] else showNat (n div 10) @ [digit (n mod 10)])"

declare showNat.simps [simp del]

definition padZero :: "nat \<Rightarrow> string \<Rightarrow> string" where
  \<comment> \<open>leading zeros up to a width; a longer text is left as it is\<close>
  "padZero w s = replicate (w - length s) (CHR ''0'') @ s"

definition showIntWidth :: "nat \<Rightarrow> int \<Rightarrow> string" where
  \<comment> \<open>\<^verbatim>\<open>appendInt\<close> of package \<^verbatim>\<open>time\<close>: the sign is not counted in the width\<close>
  "showIntWidth w x = (if x < 0 then ''-'' else '''') @ padZero w (showNat (nat \<bar>x\<bar>))"

section \<open>float64\<close>

text \<open>
  A \<^verbatim>\<open>float64\<close> is modelled by the number it denotes: every finite binary64 value
  is a rational. \<open>Fin 0\<close> is the positive zero; the negative zero, the infinities and
  NaN are constructors of their own. Comparison and formatting are exact on this
  representation, so no rounding error enters the model.
\<close>

datatype float64 = Fin rat | NegZero | PosInf | NegInf | NaN

fun fclass :: "float64 \<Rightarrow> int" where
  "fclass NegInf = -1"
| "fclass PosInf = 1"
| "fclass _ = 0"

fun fvalue :: "float64 \<Rightarrow> rat" where
  "fvalue (Fin q) = q"
| "fvalue _ = 0"

definition fless :: "float64 \<Rightarrow> float64 \<Rightarrow> bool" where
  \<comment> \<open>Go's \<^verbatim>\<open><\<close> on float64: false as soon as one side is NaN; the two zeros are equal\<close>
  "fless x y \<longleftrightarrow> x \<noteq> NaN \<and> y \<noteq> NaN \<and>
     (fclass x < fclass y \<or> fclass x = fclass y \<and> fvalue x < fvalue y)"

definition fgt :: "float64 \<Rightarrow> float64 \<Rightarrow> bool" where
  "fgt x y \<longleftrightarrow> fless y x"

definition fle :: "float64 \<Rightarrow> float64 \<Rightarrow> bool" where
  "fle x y \<longleftrightarrow> x \<noteq> NaN \<and> y \<noteq> NaN \<and>
     (fclass x < fclass y \<or> fclass x = fclass y \<and> fvalue x \<le> fvalue y)"

definition roundHalfEven :: "rat \<Rightarrow> int" where
  "roundHalfEven q =
     (let f = \<lfloor>q\<rfloor>; r = q - of_int f
      in if r < 1 / 2 then f
         else if 1 / 2 < r then f + 1
         else if even f then f else f + 1)"

definition fixedDigits :: "nat \<Rightarrow> nat \<Rightarrow> string" where
  \<comment> \<open>\<open>k\<close> counted in units of \<open>10^-p\<close>, written with \<open>p\<close> digits after the point\<close>
  "fixedDigits p k =
     showNat (k div 10 ^ p) @ (if p = 0 then '''' else ''.'' @ padZero p (showNat (k mod 10 ^ p)))"

fun fmtF :: "nat \<Rightarrow> float64 \<Rightarrow> string" where
  \<comment> \<open>the verb \<^verbatim>\<open>%.pf\<close> of \<^verbatim>\<open>fmt.Printf\<close>: the exact value rounded to \<open>p\<close> decimals,
      a tie going to the even digit; the sign is that of the argument\<close>
  "fmtF p (Fin q) =
     (if q < 0 then ''-'' else '''') @ fixedDigits p (nat (roundHalfEven (\<bar>q\<bar> * 10 ^ p)))"
| "fmtF p NegZero = ''-'' @ fixedDigits p 0"
| "fmtF p PosInf = ''+Inf''"
| "fmtF p NegInf = ''-Inf''"
| "fmtF p NaN = ''NaN''"

section \<open>Time in UTC\<close>

text \<open>
  \<^verbatim>\<open>time.UnixMilli(msec)\<close> is \<^verbatim>\<open>Unix(msec/1e3, (msec%1e3)*1e6)\<close>: Go's division
  truncates, and \<^verbatim>\<open>Unix\<close> moves a negative remainder into the seconds.
\<close>

definition unixMilliSeconds :: "int \<Rightarrow> int" where
  "unixMilliSeconds msec =
     (let sec = msec sdiv 1000; rest = msec smod 1000
      in if rest < 0 then sec - 1 else sec)"

text \<open>
  Package \<^verbatim>\<open>time\<close> reckons in the proleptic Gregorian calendar, without leap seconds.
  The date of a day number (days since 1970-01-01) is found as the calendar is
  defined: the year is the one whose first day is the last not after the day, the month
  is the first that still holds the remaining days.
\<close>

definition leapYear :: "int \<Rightarrow> bool" where
  "leapYear y \<longleftrightarrow> y mod 4 = 0 \<and> (y mod 100 \<noteq> 0 \<or> y mod 400 = 0)"

definition daysIn :: "int \<Rightarrow> int \<Rightarrow> int" where
  "daysIn y m =
     (if m = 2 then (if leapYear y then 29 else 28)
      else if m = 4 \<or> m = 6 \<or> m = 9 \<or> m = 11 then 30 else 31)"

definition daysBeforeYear :: "int \<Rightarrow> int" where
  \<comment> \<open>the day number of the first of January: 365 days for each year since 1970 and one
      more for each leap year (477 leap years precede 1970)\<close>
  "daysBeforeYear y =
     365 * (y - 1970) + ((y - 1) div 4 - (y - 1) div 100 + (y - 1) div 400) - 477"

definition yearGuess :: "int \<Rightarrow> int" where
  \<comment> \<open>a year of 365.2425 days; at most one year off\<close>
  "yearGuess z = 1970 + (400 * z) div 146097"

definition yearOfDay :: "int \<Rightarrow> int" where
  "yearOfDay z =
     (if z < daysBeforeYear (yearGuess z) then yearGuess z - 1
      else if daysBeforeYear (yearGuess z + 1) \<le> z then yearGuess z + 1
      else yearGuess z)"

fun findMonth :: "(int \<Rightarrow> int) \<Rightarrow> int list \<Rightarrow> int \<Rightarrow> int \<times> int" where
  \<comment> \<open>the month and the day of the month, from the day of the year counted from \<open>0\<close>\<close>
  "findMonth len [] r = (0, r + 1)"
| "findMonth len [m] r = (m, r + 1)"
| "findMonth len (m # ms) r = (if r < len m then (m, r + 1) else findMonth len ms (r - len m))"

definition months :: "int list" where
  "months = [1, 2, 3, 4, 5, 6, 7, 8, 9, 10, 11, 12]"

definition civilFromDays :: "int \<Rightarrow> int \<times> int \<times> int" where
  "civilFromDays z =
     (case findMonth (daysIn (yearOfDay z)) months (z - daysBeforeYear (yearOfDay z)) of
        (m, d) \<Rightarrow> (yearOfDay z, m, d))"

definition two :: "int \<Rightarrow> string" where
  "two x = showIntWidth 2 x"

definition clock :: "int \<Rightarrow> string" where
  \<comment> \<open>\<open>15:04:05\<close> for a second of the day\<close>
  "clock r = two (r div 3600) @ '':'' @ two (r mod 3600 div 60) @ '':'' @ two (r mod 60)"

definition calendarDate :: "int \<times> int \<times> int \<Rightarrow> string" where
  \<comment> \<open>\<open>2006-01-02\<close>\<close>
  "calendarDate ymd = (case ymd of (y, m, d) \<Rightarrow> showIntWidth 4 y @ ''-'' @ two m @ ''-'' @ two d)"

definition formatUTC :: "int \<Rightarrow> string" where
  \<comment> \<open>\<^verbatim>\<open>t.UTC().Format("2006-01-02 15:04:05 MST")\<close> for \<^verbatim>\<open>t = time.UnixMilli(msec)\<close>\<close>
  "formatUTC msec =
     calendarDate (civilFromDays (unixMilliSeconds msec div 86400)) @ '' '' @
     clock (unixMilliSeconds msec mod 86400) @ '' UTC''"

section \<open>The data model\<close>

text \<open>
  The structs of \<^verbatim>\<open>main.go\<close>. The three fields called \<^verbatim>\<open>Type\<close> get a name each;
  \<^verbatim>\<open>int\<close> and \<^verbatim>\<open>int64\<close> are both 64 bits wide (a 64-bit platform), and the decoder
  below never stores a number outside that range. The anonymous struct types of
  \<^verbatim>\<open>Properties\<close>, \<^verbatim>\<open>Geometry\<close> and of the elements of \<^verbatim>\<open>Features\<close> are named
  after their fields.
\<close>

record Metadata =
  Generated :: int
  URL :: string
  Title :: string
  Status :: int
  API :: string
  Count :: int

record FeatureProperties =
  Mag :: float64
  Place :: string
  Time :: int
  Updated :: int
  Tz :: int
  Longitude :: float64
  Latitude :: float64

record FeatureGeometry =
  GeometryType :: string
  Coordinates :: "float64 list"

record Feature =
  FeatureType :: string
  Properties :: FeatureProperties
  Geometry :: FeatureGeometry

record Earthquake =
  Type :: string
  Meta :: Metadata
  Features :: "Feature list"

text \<open>The zero values, which \<^verbatim>\<open>var earthquakeData Earthquake\<close> starts from.\<close>

definition zeroMetadata :: Metadata where
  "zeroMetadata = \<lparr>Generated = 0, URL = [], Title = [], Status = 0, API = [], Count = 0\<rparr>"

definition zeroProperties :: FeatureProperties where
  "zeroProperties =
     \<lparr>Mag = Fin 0, Place = [], Time = 0, Updated = 0, Tz = 0, Longitude = Fin 0, Latitude = Fin 0\<rparr>"

definition zeroGeometry :: FeatureGeometry where
  "zeroGeometry = \<lparr>GeometryType = [], Coordinates = []\<rparr>"

definition zeroFeature :: Feature where
  "zeroFeature = \<lparr>FeatureType = [], Properties = zeroProperties, Geometry = zeroGeometry\<rparr>"

definition zeroEarthquake :: Earthquake where
  "zeroEarthquake = \<lparr>Type = [], Meta = zeroMetadata, Features = []\<rparr>"

section \<open>Errors\<close>

datatype error =
  NetworkError string
    \<comment> \<open>what \<^verbatim>\<open>client.Do\<close> returns when no response arrives\<close>
| SyntaxError string
    \<comment> \<open>the body is not a JSON value: cut short, empty, or malformed\<close>
| UnmarshalTypeError string string
    \<comment> \<open>a JSON value of the first kind was found where the Go type named second is needed\<close>
| NumError string
    \<comment> \<open>what \<^verbatim>\<open>strconv.ParseFloat\<close> returns: bad syntax or a value out of range\<close>

section \<open>The JSON decoder\<close>

text \<open>
  \<^verbatim>\<open>json.NewDecoder(resp.Body).Decode(&earthquakeData)\<close> first scans one JSON value
  off the stream and then stores it into the struct. The scanner is not modelled: a
  body is either malformed or the JSON value it holds, as a tree. A number stands for
  its literal, given by what \<^verbatim>\<open>strconv.ParseInt(lit, 10, 64)\<close> and
  \<^verbatim>\<open>strconv.ParseFloat(lit, 64)\<close> make of it (\<open>None\<close> where they fail: \<^verbatim>\<open>5.0\<close> is no
  integer literal, \<^verbatim>\<open>1e999\<close> is out of range). The members of an object are in the
  order of the document.
\<close>

datatype json =
  JNull
| JBool bool
| JNum "int option" "float64 option"
| JStr string
| JArr "json list"
| JObj "(string \<times> json) list"

fun kindOf :: "json \<Rightarrow> string" where
  "kindOf JNull = ''null''"
| "kindOf (JBool _) = ''bool''"
| "kindOf (JNum _ _) = ''number''"
| "kindOf (JStr _) = ''string''"
| "kindOf (JArr _) = ''array''"
| "kindOf (JObj _) = ''object''"

text \<open>
  A member is stored into the field whose name (its \<^verbatim>\<open>json\<close> tag, or the name of the Go
  field when it has no tag) equals the member's name, or equals it when case is
  ignored. Ignoring case also identifies the long s (U+017F, bytes C5 BF) with \<open>s\<close> and
  the Kelvin sign (U+212A, bytes E2 84 AA) with \<open>k\<close>. A member that matches no field
  is skipped.
\<close>

definition lowerChar :: "char \<Rightarrow> char" where
  "lowerChar c =
     (if 65 \<le> (of_char c :: nat) \<and> (of_char c :: nat) \<le> 90 then char_of (of_char c + 32 :: nat) else c)"

fun foldName :: "string \<Rightarrow> string" where
  "foldName [] = []"
| "foldName (a # b # c # cs) =
     (if of_char a = (0xE2 :: nat) \<and> of_char b = (0x84 :: nat) \<and> of_char c = (0xAA :: nat)
        then CHR ''k'' # foldName cs
      else if of_char a = (0xC5 :: nat) \<and> of_char b = (0xBF :: nat)
        then CHR ''s'' # foldName (c # cs)
      else lowerChar a # foldName (b # c # cs))"
| "foldName [a, b] =
     (if of_char a = (0xC5 :: nat) \<and> of_char b = (0xBF :: nat) then ''s''
      else [lowerChar a, lowerChar b])"
| "foldName [a] = [lowerChar a]"

definition matches :: "string \<Rightarrow> string \<Rightarrow> bool" where
  "matches name key \<longleftrightarrow> key = name \<or> foldName key = foldName name"

text \<open>
  Storing a value. \<^verbatim>\<open>null\<close> leaves any of these Go types as it is; a value of the
  wrong kind is an \<^verbatim>\<open>UnmarshalTypeError\<close>. Go goes on decoding after such an error
  and reports the first one at the end; \<^verbatim>\<open>fetchEarthquakeData\<close> then drops the data,
  so the model stops at the first error.
\<close>

fun decodeString :: "json \<Rightarrow> string \<Rightarrow> error + string" where
  "decodeString JNull old = Inr old"
| "decodeString (JStr s) old = Inr s"
| "decodeString j old = Inl (UnmarshalTypeError (kindOf j) ''string'')"

fun decodeInt :: "string \<Rightarrow> json \<Rightarrow> int \<Rightarrow> error + int" where
  "decodeInt ty JNull old = Inr old"
| "decodeInt ty (JNum (Some i) x) old = Inr i"
| "decodeInt ty j old = Inl (UnmarshalTypeError (kindOf j) ty)"

fun decodeFloat :: "json \<Rightarrow> float64 \<Rightarrow> error + float64" where
  "decodeFloat JNull old = Inr old"
| "decodeFloat (JNum i (Some x)) old = Inr x"
| "decodeFloat j old = Inl (UnmarshalTypeError (kindOf j) ''float64'')"

definition store :: "error + 'a \<Rightarrow> ('a \<Rightarrow> 's) \<Rightarrow> error + 's" where
  "store r put = (case r of Inl e \<Rightarrow> Inl e | Inr x \<Rightarrow> Inr (put x))"

fun decodeMembers ::
  "(string \<Rightarrow> json \<Rightarrow> 's \<Rightarrow> error + 's) \<Rightarrow> (string \<times> json) list \<Rightarrow> 's \<Rightarrow> error + 's" where
  "decodeMembers field [] s = Inr s"
| "decodeMembers field ((k, v) # ms) s =
     (case field k v s of Inl e \<Rightarrow> Inl e | Inr s' \<Rightarrow> decodeMembers field ms s')"

fun decodeStruct ::
  "(string \<Rightarrow> json \<Rightarrow> 's \<Rightarrow> error + 's) \<Rightarrow> json \<Rightarrow> 's \<Rightarrow> error + 's" where
  "decodeStruct field JNull old = Inr old"
| "decodeStruct field (JObj ms) old = decodeMembers field ms old"
| "decodeStruct field j old = Inl (UnmarshalTypeError (kindOf j) ''struct'')"

text \<open>
  A slice is filled from an array, element by element, each element starting from the
  zero value; \<^verbatim>\<open>null\<close> makes it \<^verbatim>\<open>nil\<close>. (Where a document repeats a member name,
  Go decodes the second array into the elements of the first; the model starts every
  array afresh. It agrees with Go on every document whose objects name each field once.)
\<close>

fun decodeElements :: "(json \<Rightarrow> error + 'a) \<Rightarrow> json list \<Rightarrow> error + 'a list" where
  "decodeElements elem [] = Inr []"
| "decodeElements elem (j # js) =
     (case elem j of
        Inl e \<Rightarrow> Inl e
      | Inr x \<Rightarrow> (case decodeElements elem js of Inl e \<Rightarrow> Inl e | Inr xs \<Rightarrow> Inr (x # xs)))"

fun decodeSlice :: "(json \<Rightarrow> error + 'a) \<Rightarrow> json \<Rightarrow> error + 'a list" where
  "decodeSlice elem JNull = Inr []"
| "decodeSlice elem (JArr js) = decodeElements elem js"
| "decodeSlice elem j = Inl (UnmarshalTypeError (kindOf j) ''slice'')"

text \<open>The fields of each struct, by the names the decoder knows them under.\<close>

definition metadataField :: "string \<Rightarrow> json \<Rightarrow> Metadata \<Rightarrow> error + Metadata" where
  "metadataField k v m =
     (if matches ''generated'' k then store (decodeInt ''int64'' v (Generated m)) (\<lambda>x. m\<lparr>Generated := x\<rparr>)
      else if matches ''url'' k then store (decodeString v (URL m)) (\<lambda>x. m\<lparr>URL := x\<rparr>)
      else if matches ''title'' k then store (decodeString v (Title m)) (\<lambda>x. m\<lparr>Title := x\<rparr>)
      else if matches ''status'' k then store (decodeInt ''int'' v (Status m)) (\<lambda>x. m\<lparr>Status := x\<rparr>)
      else if matches ''api'' k then store (decodeString v (API m)) (\<lambda>x. m\<lparr>API := x\<rparr>)
      else if matches ''count'' k then store (decodeInt ''int'' v (Count m)) (\<lambda>x. m\<lparr>Count := x\<rparr>)
      else Inr m)"

definition propertiesField ::
  "string \<Rightarrow> json \<Rightarrow> FeatureProperties \<Rightarrow> error + FeatureProperties" where
  "propertiesField k v p =
     (if matches ''mag'' k then store (decodeFloat v (Mag p)) (\<lambda>x. p\<lparr>Mag := x\<rparr>)
      else if matches ''place'' k then store (decodeString v (Place p)) (\<lambda>x. p\<lparr>Place := x\<rparr>)
      else if matches ''time'' k then store (decodeInt ''int64'' v (Time p)) (\<lambda>x. p\<lparr>Time := x\<rparr>)
      else if matches ''updated'' k then store (decodeInt ''int64'' v (Updated p)) (\<lambda>x. p\<lparr>Updated := x\<rparr>)
      else if matches ''tz'' k then store (decodeInt ''int'' v (Tz p)) (\<lambda>x. p\<lparr>Tz := x\<rparr>)
      else if matches ''longitude'' k then store (decodeFloat v (Longitude p)) (\<lambda>x. p\<lparr>Longitude := x\<rparr>)
      else if matches ''latitude'' k then store (decodeFloat v (Latitude p)) (\<lambda>x. p\<lparr>Latitude := x\<rparr>)
      else Inr p)"

definition geometryField ::
  "string \<Rightarrow> json \<Rightarrow> FeatureGeometry \<Rightarrow> error + FeatureGeometry" where
  "geometryField k v g =
     (if matches ''type'' k then store (decodeString v (GeometryType g)) (\<lambda>x. g\<lparr>GeometryType := x\<rparr>)
      else if matches ''coordinates'' k
        then store (decodeSlice (\<lambda>j. decodeFloat j (Fin 0)) v) (\<lambda>x. g\<lparr>Coordinates := x\<rparr>)
      else Inr g)"

definition featureField :: "string \<Rightarrow> json \<Rightarrow> Feature \<Rightarrow> error + Feature" where
  "featureField k v f =
     (if matches ''type'' k then store (decodeString v (FeatureType f)) (\<lambda>x. f\<lparr>FeatureType := x\<rparr>)
      else if matches ''properties'' k
        then store (decodeStruct propertiesField v (Properties f)) (\<lambda>x. f\<lparr>Properties := x\<rparr>)
      else if matches ''geometry'' k
        then store (decodeStruct geometryField v (Geometry f)) (\<lambda>x. f\<lparr>Geometry := x\<rparr>)
      else Inr f)"

definition earthquakeField :: "string \<Rightarrow> json \<Rightarrow> Earthquake \<Rightarrow> error + Earthquake" where
  \<comment> \<open>\<^verbatim>\<open>Meta Metadata\<close> carries no tag in \<^verbatim>\<open>main.go\<close>: its name for the decoder is \<^verbatim>\<open>Meta\<close>\<close>
  "earthquakeField k v q =
     (if matches ''type'' k then store (decodeString v (Type q)) (\<lambda>x. q\<lparr>Type := x\<rparr>)
      else if matches ''Meta'' k
        then store (decodeStruct metadataField v (Meta q)) (\<lambda>x. q\<lparr>Meta := x\<rparr>)
      else if matches ''features'' k
        then store (decodeSlice (\<lambda>j. decodeStruct featureField j zeroFeature) v) (\<lambda>x. q\<lparr>Features := x\<rparr>)
      else Inr q)"

definition Decode :: "json \<Rightarrow> error + Earthquake" where
  "Decode j = decodeStruct earthquakeField j zeroEarthquake"

section \<open>The program\<close>

text \<open>
  What the process has written: the lines on standard output, in order and without
  their final newline, and the entries of the standard logger. The logger's date and
  time prefix is left out; an entry made by \<^verbatim>\<open>log.Fatalf\<close> keeps its cause as a value.
\<close>

datatype logline = Message string | Failure string error

record process =
  stdout :: "string list"
  stderr :: "logline list"

datatype stop =
  Exit nat
    \<comment> \<open>the exit status: \<open>0\<close> when \<^verbatim>\<open>main\<close> returns, \<open>1\<close> from \<^verbatim>\<open>log.Fatalf\<close>\<close>
| IndexOutOfRange nat nat
    \<comment> \<open>the run-time panic of an index expression: the index and the length\<close>

text \<open>
  What the program reads: \<^verbatim>\<open>os.Args\<close> (the program's name first) and what the
  request to \<^verbatim>\<open>EarthquakeAPIURL\<close> brings. \<^verbatim>\<open>http.NewRequest\<close> cannot fail on that
  constant URL, so the first error branch of \<^verbatim>\<open>fetchEarthquakeData\<close> has no input.
\<close>

datatype body = Malformed error | Document json

datatype response = NoResponse error | Response body

record world =
  Args :: "string list"
  reply :: response

definition start :: process where
  "start = \<lparr>stdout = [], stderr = []\<rparr>"

definition println :: "string \<Rightarrow> process \<Rightarrow> process" where
  "println s p = p\<lparr>stdout := stdout p @ [s]\<rparr>"

definition logPrintf :: "string \<Rightarrow> process \<Rightarrow> process" where
  "logPrintf s p = p\<lparr>stderr := stderr p @ [Message s]\<rparr>"

definition logFatalf :: "string \<Rightarrow> error \<Rightarrow> process \<Rightarrow> process" where
  "logFatalf s e p = p\<lparr>stderr := stderr p @ [Failure s e]\<rparr>"

definition separator :: string where
  "separator = ''-------------------------------------------------------------------''"

definition parseMinimumMagnitude ::
  "(string \<Rightarrow> error + float64) \<Rightarrow> string list \<Rightarrow> process \<Rightarrow> float64 \<times> process" where
  "parseMinimumMagnitude ParseFloat args p =
     (if length args > 1 then
        (case ParseFloat (args ! 1) of
           Inr n \<Rightarrow> (n, p)
         | Inl err \<Rightarrow> (Fin 0, logPrintf ''Invalid magnitude provided, using default of 0'' p))
      else (Fin 0, p))"

definition fetchEarthquakeData :: "world \<Rightarrow> error + Earthquake" where
  "fetchEarthquakeData w =
     (case reply w of
        NoResponse err \<Rightarrow> Inl err
      | Response (Malformed err) \<Rightarrow> Inl err
      | Response (Document j) \<Rightarrow>
          (case Decode j of Inl err \<Rightarrow> Inl err | Inr earthquakeData \<Rightarrow> Inr earthquakeData))"

definition index :: "'a list \<Rightarrow> nat \<Rightarrow> stop + 'a" where
  \<comment> \<open>\<^verbatim>\<open>xs[i]\<close>\<close>
  "index xs i = (if i < length xs then Inr (xs ! i) else Inl (IndexOutOfRange i (length xs)))"

definition printEarthquakeInfo :: "Feature \<Rightarrow> process \<Rightarrow> (stop + unit) \<times> process" where
  "printEarthquakeInfo feature p =
     (let p1 = println (''Epicenter: '' @ Place (Properties feature)) p;
          p2 = println (''Magnitude: '' @ fmtF 1 (Mag (Properties feature))) p1;
          p3 = println (''Time: '' @ formatUTC (Time (Properties feature))) p2
      in case index (Coordinates (Geometry feature)) 0 of
           Inl panic \<Rightarrow> (Inl panic, p3)
         | Inr lon \<Rightarrow>
             (let p4 = println (''Longitude: '' @ fmtF 4 lon) p3
              in case index (Coordinates (Geometry feature)) 1 of
                   Inl panic \<Rightarrow> (Inl panic, p4)
                 | Inr lat \<Rightarrow> (Inr (), println separator (println (''Latitude: '' @ fmtF 4 lat) p4))))"

fun quakeLoop :: "float64 \<Rightarrow> Feature list \<Rightarrow> nat \<Rightarrow> process \<Rightarrow> (stop + nat) \<times> process" where
  \<comment> \<open>the \<^verbatim>\<open>for ... range earthquakeData.Features\<close> of \<^verbatim>\<open>listQuakes\<close>\<close>
  "quakeLoop minimumMagnitude [] totalEarthquakes p = (Inr totalEarthquakes, p)"
| "quakeLoop minimumMagnitude (feature # rest) totalEarthquakes p =
     (if fgt (Mag (Properties feature)) minimumMagnitude then
        (case printEarthquakeInfo feature p of
           (Inl panic, p') \<Rightarrow> (Inl panic, p')
         | (Inr _, p') \<Rightarrow> quakeLoop minimumMagnitude rest (totalEarthquakes + 1) p')
      else quakeLoop minimumMagnitude rest totalEarthquakes p)"

definition headline :: "float64 \<Rightarrow> string" where
  "headline minimumMagnitude =
     ''Earthquake(s) with magnitude '' @ fmtF 1 minimumMagnitude @ '' or higher in the last 30 days:''"

definition listQuakes :: "world \<Rightarrow> float64 \<Rightarrow> process \<Rightarrow> (stop + nat) \<times> process" where
  "listQuakes w minimumMagnitude p =
     (case fetchEarthquakeData w of
        Inl err \<Rightarrow> (Inl (Exit 1), logFatalf ''Failed to fetch earthquake data: '' err p)
      | Inr earthquakeData \<Rightarrow>
          quakeLoop minimumMagnitude (Features earthquakeData) 0
            (println separator (println (headline minimumMagnitude) (println separator p))))"

definition main :: "(string \<Rightarrow> error + float64) \<Rightarrow> world \<Rightarrow> stop \<times> process" where
  "main ParseFloat w =
     (case parseMinimumMagnitude ParseFloat (Args w) start of
        (minimumMagnitude, p) \<Rightarrow>
          (case listQuakes w minimumMagnitude p of
             (Inl stopped, p') \<Rightarrow> (stopped, p')
           | (Inr totalEarthquakes, p') \<Rightarrow>
               (Exit 0, println (''Total number of Earthquakes: '' @ showNat totalEarthquakes) p')))"

section \<open>Notions used in the statements\<close>

definition feq :: "float64 \<Rightarrow> float64 \<Rightarrow> bool" where
  \<comment> \<open>Go's \<^verbatim>\<open>==\<close> on float64\<close>
  "feq x y \<longleftrightarrow> x \<noteq> NaN \<and> y \<noteq> NaN \<and> fclass x = fclass y \<and> fvalue x = fvalue y"

definition exceeds :: "float64 \<Rightarrow> Feature \<Rightarrow> bool" where
  \<comment> \<open>the test of the loop in \<^verbatim>\<open>listQuakes\<close>\<close>
  "exceeds m feature \<longleftrightarrow> fgt (Mag (Properties feature)) m"

definition block :: "Feature \<Rightarrow> string list" where
  \<comment> \<open>the lines \<^verbatim>\<open>printEarthquakeInfo\<close> writes for a record that has two coordinates\<close>
  "block feature =
     [''Epicenter: '' @ Place (Properties feature),
      ''Magnitude: '' @ fmtF 1 (Mag (Properties feature)),
      ''Time: '' @ formatUTC (Time (Properties feature)),
      ''Longitude: '' @ fmtF 4 (Coordinates (Geometry feature) ! 0),
      ''Latitude: '' @ fmtF 4 (Coordinates (Geometry feature) ! 1),
      separator]"

subsection \<open>A sample run\<close>

text \<open>
  A feed of three records in the shape of the USGS document, cut down to the members
  that matter. The coordinates \<^verbatim>\<open>[-122.4194, 37.7749, 10.0]\<close> and the magnitude
  \<^verbatim>\<open>4.2\<close> are the binary64 numbers nearest to these literals. The third record has
  no coordinates.
\<close>

definition sampleDocument :: json where
  "sampleDocument =
     JObj [
       (''type'', JStr ''FeatureCollection''),
       (''metadata'', JObj [
          (''generated'', JNum (Some 1700000500000) (Some (Fin 1700000500000))),
          (''url'', JStr ''https://earthquake.usgs.gov/''),
          (''title'', JStr ''USGS Significant Earthquakes, Past Month''),
          (''status'', JNum (Some 200) (Some (Fin 200))),
          (''api'', JStr ''1.10.3''),
          (''count'', JNum (Some 3) (Some (Fin 3)))]),
       (''features'', JArr [
          JObj [
            (''type'', JStr ''Feature''),
            (''properties'', JObj [
               (''mag'', JNum None (Some (Fin (11 / 2)))),
               (''place'', JStr ''San Francisco''),
               (''time'', JNum (Some 1700000000000) (Some (Fin 1700000000000))),
               (''tz'', JNull)]),
            (''geometry'', JObj [
               (''type'', JStr ''Point''),
               (''coordinates'', JArr [
                  JNum None (Some (Fin (- 538406215061445 / 2 ^ 42))),
                  JNum None (Some (Fin (332271534304605 / 2 ^ 43))),
                  JNum None (Some (Fin 10))])]),
            (''id'', JStr ''a'')],
          JObj [
            (''type'', JStr ''Feature''),
            (''properties'', JObj [
               (''mag'', JNum (Some 5) (Some (Fin 5))),
               (''place'', JStr ''Tohoku''),
               (''time'', JNum (Some 1299822384000) (Some (Fin 1299822384000)))]),
            (''geometry'', JObj [
               (''type'', JStr ''Point''),
               (''coordinates'', JArr [
                  JNum None (Some (Fin (5009163869914923 / 2 ^ 45))),
                  JNum None (Some (Fin (337083876797055 / 2 ^ 43)))])])],
          JObj [
            (''type'', JStr ''Feature''),
            (''properties'', JObj [
               (''mag'', JNum None (Some (Fin (4728779608739021 / 2 ^ 50)))),
               (''place'', JStr ''Nowhere'')]),
            (''geometry'', JObj [(''type'', JStr ''Point''), (''coordinates'', JArr [])])]])]"

definition sampleFeatures :: "Feature list" where
  "sampleFeatures =
     [\<lparr>FeatureType = ''Feature'',
       Properties = \<lparr>Mag = Fin (11 / 2), Place = ''San Francisco'', Time = 1700000000000,
         Updated = 0, Tz = 0, Longitude = Fin 0, Latitude = Fin 0\<rparr>,
       Geometry = \<lparr>GeometryType = ''Point'',
         Coordinates = [Fin (- 538406215061445 / 2 ^ 42), Fin (332271534304605 / 2 ^ 43), Fin 10]\<rparr>\<rparr>,
      \<lparr>FeatureType = ''Feature'',
       Properties = \<lparr>Mag = Fin 5, Place = ''Tohoku'', Time = 1299822384000,
         Updated = 0, Tz = 0, Longitude = Fin 0, Latitude = Fin 0\<rparr>,
       Geometry = \<lparr>GeometryType = ''Point'',
         Coordinates = [Fin (5009163869914923 / 2 ^ 45), Fin (337083876797055 / 2 ^ 43)]\<rparr>\<rparr>,
      \<lparr>FeatureType = ''Feature'',
       Properties = \<lparr>Mag = Fin (4728779608739021 / 2 ^ 50), Place = ''Nowhere'', Time = 0,
         Updated = 0, Tz = 0, Longitude = Fin 0, Latitude = Fin 0\<rparr>,
       Geometry = \<lparr>GeometryType = ''Point'', Coordinates = []\<rparr>\<rparr>]"

definition sampleFeed :: Earthquake where
  "sampleFeed = \<lparr>Type = ''FeatureCollection'', Meta = zeroMetadata, Features = sampleFeatures\<rparr>"

definition sampleParseFloat :: "string \<Rightarrow> error + float64" where
  \<comment> \<open>\<^verbatim>\<open>strconv.ParseFloat\<close> on the few texts the sample runs pass to it\<close>
  "sampleParseFloat s =
     (if s = ''5'' \<or> s = ''5.0'' then Inr (Fin 5)
      else if s = ''0'' then Inr (Fin 0)
      else if s = ''4.5'' then Inr (Fin (9 / 2))
      else Inl (NumError ''invalid syntax''))"

definition sampleWorld :: "string list \<Rightarrow> world" where
  "sampleWorld args = \<lparr>Args = args, reply = Response (Document sampleDocument)\<rparr>"

section \<open>Properties\<close>

subsection \<open>Evaluation\<close>

lemma showNat_digit: "n < 10 \<Longrightarrow> showNat n = [digit n]"
  by (simp add: showNat.simps)

lemma showNat_more: "10 \<le> n \<Longrightarrow> showNat n = showNat (n div 10) @ [digit (n mod 10)]"
  by (simp add: showNat.simps)

lemmas fieldNames = matches_def lowerChar_def store_def

lemma Decode_sampleDocument: "Decode sampleDocument = Inr sampleFeed"
  by (simp add: Decode_def sampleDocument_def sampleFeed_def sampleFeatures_def fieldNames
      earthquakeField_def featureField_def propertiesField_def geometryField_def metadataField_def
      zeroEarthquake_def zeroFeature_def zeroProperties_def zeroGeometry_def zeroMetadata_def)

lemma fetch_sampleWorld: "fetchEarthquakeData (sampleWorld args) = Inr sampleFeed"
  by (simp add: fetchEarthquakeData_def sampleWorld_def Decode_sampleDocument)

lemma exceeds_sample_5:
  "filter (exceeds (Fin 5)) sampleFeatures = [sampleFeatures ! 0]"
  by (simp add: sampleFeatures_def exceeds_def fgt_def fless_def)

subsection \<open>The loop of the reporter\<close>

lemma printEarthquakeInfo_complete:
  assumes "2 \<le> length (Coordinates (Geometry feature))"
  shows "printEarthquakeInfo feature p = (Inr (), p\<lparr>stdout := stdout p @ block feature\<rparr>)"
  using assms by (auto simp add: printEarthquakeInfo_def index_def println_def block_def)

lemma quakeLoop_complete:
  assumes "\<forall>f\<in>set fs. exceeds m f \<longrightarrow> 2 \<le> length (Coordinates (Geometry f))"
  shows "quakeLoop m fs n p =
           (Inr (n + length (filter (exceeds m) fs)),
            p\<lparr>stdout := stdout p @ concat (map block (filter (exceeds m) fs))\<rparr>)"
  using assms
proof (induction fs arbitrary: n p)
  case Nil
  show ?case by simp
next
  case (Cons f fs)
  from Cons.prems
  have rest: "\<forall>g\<in>set fs. exceeds m g \<longrightarrow> 2 \<le> length (Coordinates (Geometry g))"
    by simp
  show ?case
  proof (cases "exceeds m f")
    case True
    with Cons.prems have two: "2 \<le> length (Coordinates (Geometry f))"
      by simp
    show ?thesis
      using True
      by (simp add: exceeds_def [symmetric] printEarthquakeInfo_complete [OF two] Cons.IH [OF rest])
  next
    case False
    then show ?thesis
      by (simp add: exceeds_def [symmetric] Cons.IH [OF rest])
  qed
qed

lemma listQuakes_complete:
  assumes "fetchEarthquakeData w = Inr d"
    and "\<forall>f\<in>set (Features d). exceeds m f \<longrightarrow> 2 \<le> length (Coordinates (Geometry f))"
  shows "listQuakes w m p =
           (Inr (length (filter (exceeds m) (Features d))),
            p\<lparr>stdout := stdout p @ [separator, headline m, separator] @
                 concat (map block (filter (exceeds m) (Features d)))\<rparr>)"
  using assms by (simp add: listQuakes_def quakeLoop_complete println_def)

lemma feq_not_fgt: "feq x m \<Longrightarrow> \<not> fgt x m"
  by (simp add: feq_def fgt_def fless_def)

subsection \<open>The count\<close>

text \<open>
  C1. The reporter returns the number of records whose magnitude is strictly greater
  than the threshold, and prints the blocks of exactly these records: a record whose
  magnitude equals the threshold (by Go's \<^verbatim>\<open>==\<close>) is in neither. This holds for every
  threshold, NaN and the infinities included, and for every decoded feed whose selected
  records have the two coordinates that the record invariant of the data model demands.
\<close>

theorem listQuakes_counts_strictly_greater:
  assumes "fetchEarthquakeData w = Inr d"
    and "\<forall>f\<in>set (Features d). exceeds m f \<longrightarrow> 2 \<le> length (Coordinates (Geometry f))"
  shows "fst (listQuakes w m p) =
           Inr (length (filter (\<lambda>f. fgt (Mag (Properties f)) m) (Features d)))
         \<and> stdout (snd (listQuakes w m p)) =
           stdout p @ [separator, headline m, separator] @
           concat (map block (filter (\<lambda>f. fgt (Mag (Properties f)) m) (Features d)))
         \<and> (\<forall>f. feq (Mag (Properties f)) m \<longrightarrow>
           f \<notin> set (filter (\<lambda>f. fgt (Mag (Properties f)) m) (Features d)))"
proof -
  have same: "exceeds m = (\<lambda>f. fgt (Mag (Properties f)) m)"
    by (rule ext) (simp add: exceeds_def)
  have "fst (listQuakes w m p) =
          Inr (length (filter (\<lambda>f. fgt (Mag (Properties f)) m) (Features d)))"
    using listQuakes_complete [OF assms, of p] by (simp add: same)
  moreover have "stdout (snd (listQuakes w m p)) =
          stdout p @ [separator, headline m, separator] @
          concat (map block (filter (\<lambda>f. fgt (Mag (Properties f)) m) (Features d)))"
    using listQuakes_complete [OF assms, of p] by (simp add: same)
  moreover have "\<forall>f. feq (Mag (Properties f)) m \<longrightarrow>
          f \<notin> set (filter (\<lambda>f. fgt (Mag (Properties f)) m) (Features d))"
    by (simp add: feq_not_fgt)
  ultimately show ?thesis
    by blast
qed

theorem listQuakes_counts_strictly_greater_witness:
  "fetchEarthquakeData (sampleWorld [''eqk'', ''5'']) = Inr sampleFeed
   \<and> list_all (\<lambda>f. 2 \<le> length (Coordinates (Geometry f))) (filter (exceeds (Fin 5)) (Features sampleFeed))
   \<and> fst (listQuakes (sampleWorld [''eqk'', ''5'']) (Fin 5) start) = Inr 1
   \<and> feq (Mag (Properties (sampleFeatures ! 1))) (Fin 5)
   \<and> sampleFeatures ! 1 \<notin> set (filter (\<lambda>f. fgt (Mag (Properties f)) (Fin 5)) (Features sampleFeed))"
proof -
  have fetched: "fetchEarthquakeData (sampleWorld [''eqk'', ''5'']) = Inr sampleFeed"
    by (rule fetch_sampleWorld)
  have coords: "\<forall>f\<in>set (Features sampleFeed). exceeds (Fin 5) f \<longrightarrow> 2 \<le> length (Coordinates (Geometry f))"
    by (simp add: sampleFeed_def sampleFeatures_def exceeds_def fgt_def fless_def)
  note claim = listQuakes_counts_strictly_greater [OF fetched coords, of start]
  have sel: "filter (\<lambda>f. fgt (Mag (Properties f)) (Fin 5)) (Features sampleFeed) = [sampleFeatures ! 0]"
    using exceeds_sample_5 by (simp add: sampleFeed_def exceeds_def [abs_def])
  from claim have count: "fst (listQuakes (sampleWorld [''eqk'', ''5'']) (Fin 5) start) = Inr 1"
    by (simp add: sel)
  have equal: "feq (Mag (Properties (sampleFeatures ! 1))) (Fin 5)"
    by (simp add: sampleFeatures_def feq_def)
  with claim
  have "sampleFeatures ! 1 \<notin> set (filter (\<lambda>f. fgt (Mag (Properties f)) (Fin 5)) (Features sampleFeed))"
    by blast
  moreover have "list_all (\<lambda>f. 2 \<le> length (Coordinates (Geometry f))) (filter (exceeds (Fin 5)) (Features sampleFeed))"
    using exceeds_sample_5 by (simp add: sampleFeed_def) (simp add: sampleFeatures_def)
  ultimately show ?thesis
    using fetched count equal by simp
qed

subsection \<open>Fatal errors\<close>

lemma parseMinimumMagnitude_stdout:
  "stdout (snd (parseMinimumMagnitude ParseFloat args p)) = stdout p"
  by (simp add: parseMinimumMagnitude_def logPrintf_def split: sum.split)

lemma parseMinimumMagnitude_stderr:
  "stderr (snd (parseMinimumMagnitude ParseFloat args p)) =
     stderr p @ (if 1 < length args \<and> isl (ParseFloat (args ! 1))
                 then [Message ''Invalid magnitude provided, using default of 0''] else [])"
  by (simp add: parseMinimumMagnitude_def logPrintf_def split: sum.split)

lemma fetch_failures:
  assumes "reply w = NoResponse err \<or> reply w = Response (Malformed err)
           \<or> (\<exists>j. reply w = Response (Document j) \<and> Decode j = Inl err)"
  shows "fetchEarthquakeData w = Inl err"
  using assms by (auto simp add: fetchEarthquakeData_def)

lemma main_fatal:
  assumes "fetchEarthquakeData w = Inl err"
  shows "main ParseFloat w =
           (Exit 1, logFatalf ''Failed to fetch earthquake data: '' err
                      (snd (parseMinimumMagnitude ParseFloat (Args w) start)))"
  using assms by (simp add: main_def listQuakes_def split: prod.split)

text \<open>
  C2. When no response arrives, or the body is not a JSON value (a body cut short), or
  a value in it does not fit its field, the process exits with status 1; nothing has been
  written to standard output; and the last entry of the log is
  \<^verbatim>\<open>Failed to fetch earthquake data: \<close> with the error that caused it. The only other
  entry the log can hold is the warning about the first argument.
\<close>

theorem fetch_or_decode_failure_is_fatal:
  assumes "reply w = NoResponse err \<or> reply w = Response (Malformed err)
           \<or> (\<exists>j. reply w = Response (Document j) \<and> Decode j = Inl err)"
  shows "fst (main ParseFloat w) = Exit 1
         \<and> stdout (snd (main ParseFloat w)) = []
         \<and> stderr (snd (main ParseFloat w)) =
             (if 1 < length (Args w) \<and> isl (ParseFloat (Args w ! 1))
              then [Message ''Invalid magnitude provided, using default of 0''] else []) @
             [Failure ''Failed to fetch earthquake data: '' err]"
proof -
  have "fetchEarthquakeData w = Inl err"
    using assms by (rule fetch_failures)
  then have run: "main ParseFloat w =
      (Exit 1, logFatalf ''Failed to fetch earthquake data: '' err
                 (snd (parseMinimumMagnitude ParseFloat (Args w) start)))"
    by (rule main_fatal)
  have "stdout (snd (main ParseFloat w)) = []"
    by (simp add: run logFatalf_def parseMinimumMagnitude_stdout start_def)
  moreover have "stderr (snd (main ParseFloat w)) =
      (if 1 < length (Args w) \<and> isl (ParseFloat (Args w ! 1))
       then [Message ''Invalid magnitude provided, using default of 0''] else []) @
      [Failure ''Failed to fetch earthquake data: '' err]"
    by (simp add: run logFatalf_def parseMinimumMagnitude_stderr start_def)
  ultimately show ?thesis
    by (simp add: run)
qed

theorem fetch_or_decode_failure_is_fatal_witness:
  "main sampleParseFloat \<lparr>Args = [''eqk''], reply = Response (Malformed (SyntaxError ''unexpected EOF''))\<rparr>
     = (Exit 1, \<lparr>stdout = [],
                 stderr = [Failure ''Failed to fetch earthquake data: '' (SyntaxError ''unexpected EOF'')]\<rparr>)
   \<and> Decode (JObj [(''features'', JArr [JObj [(''properties'', JObj [(''mag'', JStr ''5.0'')])]])])
     = Inl (UnmarshalTypeError ''string'' ''float64'')"
proof -
  let ?w = "\<lparr>Args = [''eqk''], reply = Response (Malformed (SyntaxError ''unexpected EOF''))\<rparr>"
  have cut: "reply ?w = NoResponse (SyntaxError ''unexpected EOF'')
             \<or> reply ?w = Response (Malformed (SyntaxError ''unexpected EOF''))
             \<or> (\<exists>j. reply ?w = Response (Document j) \<and> Decode j = Inl (SyntaxError ''unexpected EOF''))"
    by simp
  have "main sampleParseFloat ?w =
      (Exit 1, \<lparr>stdout = [],
                 stderr = [Failure ''Failed to fetch earthquake data: '' (SyntaxError ''unexpected EOF'')]\<rparr>)"
    using fetch_or_decode_failure_is_fatal [OF cut, of sampleParseFloat]
    by (cases "main sampleParseFloat ?w") simp
  moreover
  have "Decode (JObj [(''features'', JArr [JObj [(''properties'', JObj [(''mag'', JStr ''5.0'')])]])])
          = Inl (UnmarshalTypeError ''string'' ''float64'')"
    by (simp add: Decode_def fieldNames earthquakeField_def featureField_def propertiesField_def)
  ultimately show ?thesis
    by simp
qed

subsection \<open>The command line\<close>

text \<open>
  C3. With a first argument that \<^verbatim>\<open>strconv.ParseFloat\<close> accepts, the threshold is the
  number parsed. With a first argument that it rejects, the warning is logged and the
  threshold is 0. Without an argument the threshold is 0 and nothing is logged.
  (\<^verbatim>\<open>strconv.ParseFloat\<close> is any function here; it rejects \<^verbatim>\<open>abc\<close>.)
\<close>

theorem parseMinimumMagnitude_cases:
  "(1 < length args \<and> ParseFloat (args ! 1) = Inr n \<longrightarrow>
      parseMinimumMagnitude ParseFloat args p = (n, p))
   \<and> (1 < length args \<and> ParseFloat (args ! 1) = Inl err \<longrightarrow>
      parseMinimumMagnitude ParseFloat args p =
        (Fin 0, p\<lparr>stderr := stderr p @ [Message ''Invalid magnitude provided, using default of 0'']\<rparr>))
   \<and> (length args \<le> 1 \<longrightarrow> parseMinimumMagnitude ParseFloat args p = (Fin 0, p))"
  by (simp add: parseMinimumMagnitude_def logPrintf_def)

theorem parseMinimumMagnitude_cases_witness:
  "parseMinimumMagnitude sampleParseFloat [''eqk'', ''4.5''] start = (Fin (9 / 2), start)
   \<and> parseMinimumMagnitude sampleParseFloat [''eqk'', ''abc''] start =
       (Fin 0, \<lparr>stdout = [], stderr = [Message ''Invalid magnitude provided, using default of 0'']\<rparr>)
   \<and> parseMinimumMagnitude sampleParseFloat [''eqk''] start = (Fin 0, start)"
proof -
  have number: "1 < length [''eqk'', ''4.5''] \<and> sampleParseFloat ([''eqk'', ''4.5''] ! 1) = Inr (Fin (9 / 2))"
    by (simp add: sampleParseFloat_def)
  have words: "1 < length [''eqk'', ''abc'']
      \<and> sampleParseFloat ([''eqk'', ''abc''] ! 1) = Inl (NumError ''invalid syntax'')"
    by (simp add: sampleParseFloat_def)
  have none: "length [''eqk''] \<le> 1"
    by simp
  from number
    parseMinimumMagnitude_cases [of "[''eqk'', ''4.5'']" sampleParseFloat "Fin (9 / 2)" start]
  have "parseMinimumMagnitude sampleParseFloat [''eqk'', ''4.5''] start = (Fin (9 / 2), start)"
    by blast
  moreover from words
    parseMinimumMagnitude_cases [of "[''eqk'', ''abc'']" sampleParseFloat _ start "NumError ''invalid syntax''"]
  have "parseMinimumMagnitude sampleParseFloat [''eqk'', ''abc''] start =
      (Fin 0, start\<lparr>stderr := stderr start @ [Message ''Invalid magnitude provided, using default of 0'']\<rparr>)"
    by blast
  moreover from none parseMinimumMagnitude_cases [of "[''eqk'']" sampleParseFloat _ start]
  have "parseMinimumMagnitude sampleParseFloat [''eqk''] start = (Fin 0, start)"
    by blast
  ultimately show ?thesis
    by (simp add: start_def)
qed

lemma fetchEarthquakeData_Args: "fetchEarthquakeData (w\<lparr>Args := args\<rparr>) = fetchEarthquakeData w"
  by (simp add: fetchEarthquakeData_def)

lemma listQuakes_Args: "listQuakes (w\<lparr>Args := args\<rparr>) m p = listQuakes w m p"
  by (simp add: listQuakes_def fetchEarthquakeData_Args)

text \<open>
  C9. Arguments after the first change nothing: the exit status, the standard output and
  the log of a run with further arguments are those of the run with the first argument
  alone.
\<close>

theorem further_arguments_are_ignored:
  "main ParseFloat (w\<lparr>Args := program # first # others\<rparr>) =
   main ParseFloat (w\<lparr>Args := [program, first]\<rparr>)"
  by (simp add: main_def listQuakes_Args parseMinimumMagnitude_def)

subsection \<open>The count as a function of the threshold\<close>

lemma fgt_antitone: "fle m1 m2 \<Longrightarrow> fgt x m2 \<Longrightarrow> fgt x m1"
  by (auto simp add: fle_def fgt_def fless_def)

lemma length_filter_weaker:
  assumes "\<And>x. P x \<Longrightarrow> Q x"
  shows "length (filter P xs) \<le> length (filter Q xs)"
  using assms by (induction xs) auto

text \<open>
  C10. For one feed, raising the threshold never raises the count, and the count never
  exceeds the number of records (it is a natural number, so it is never negative).
  Both counts are returned: the feed is one whose records selected at the lower threshold
  have their two coordinates.
\<close>

theorem count_is_antitone_and_bounded:
  assumes "fetchEarthquakeData w = Inr d"
    and "\<forall>f\<in>set (Features d). exceeds m1 f \<longrightarrow> 2 \<le> length (Coordinates (Geometry f))"
  shows "\<exists>n1. fst (listQuakes w m1 p) = Inr n1 \<and> 0 \<le> n1 \<and> n1 \<le> length (Features d)
           \<and> (\<forall>m2. fle m1 m2 \<longrightarrow> (\<exists>n2. fst (listQuakes w m2 p) = Inr n2 \<and> n2 \<le> n1))"
proof -
  let ?n1 = "length (filter (exceeds m1) (Features d))"
  have first: "fst (listQuakes w m1 p) = Inr ?n1"
    using listQuakes_complete [OF assms, of p] by simp
  have bound: "?n1 \<le> length (Features d)"
    by (rule length_filter_le)
  have "\<exists>n2. fst (listQuakes w m2 p) = Inr n2 \<and> n2 \<le> ?n1" if le: "fle m1 m2" for m2
  proof -
    have weaker: "exceeds m1 f" if "exceeds m2 f" for f
      using that le by (auto simp add: exceeds_def intro: fgt_antitone)
    with assms(2)
    have "\<forall>f\<in>set (Features d). exceeds m2 f \<longrightarrow> 2 \<le> length (Coordinates (Geometry f))"
      by blast
    from listQuakes_complete [OF assms(1) this, of p]
    have "fst (listQuakes w m2 p) = Inr (length (filter (exceeds m2) (Features d)))"
      by simp
    moreover have "length (filter (exceeds m2) (Features d)) \<le> ?n1"
      using weaker by (rule length_filter_weaker)
    ultimately show ?thesis
      by blast
  qed
  with first bound show ?thesis
    by blast
qed

theorem count_is_antitone_and_bounded_witness:
  "fetchEarthquakeData (sampleWorld [''eqk'']) = Inr sampleFeed
   \<and> list_all (\<lambda>f. 2 \<le> length (Coordinates (Geometry f))) (filter (exceeds (Fin (9 / 2))) (Features sampleFeed))
   \<and> fle (Fin (9 / 2)) (Fin 5)
   \<and> fst (listQuakes (sampleWorld [''eqk'']) (Fin (9 / 2)) start) = Inr 2
   \<and> fst (listQuakes (sampleWorld [''eqk'']) (Fin 5) start) = Inr 1"
proof -
  have fetched: "fetchEarthquakeData (sampleWorld [''eqk'']) = Inr sampleFeed"
    by (rule fetch_sampleWorld)
  have sel: "filter (exceeds (Fin (9 / 2))) sampleFeatures = [sampleFeatures ! 0, sampleFeatures ! 1]"
    by (simp add: sampleFeatures_def exceeds_def fgt_def fless_def)
  have two: "list_all (\<lambda>f. 2 \<le> length (Coordinates (Geometry f)))
      (filter (exceeds (Fin (9 / 2))) (Features sampleFeed))"
    by (simp add: sampleFeed_def sel) (simp add: sampleFeatures_def)
  then have coords: "\<forall>f\<in>set (Features sampleFeed).
      exceeds (Fin (9 / 2)) f \<longrightarrow> 2 \<le> length (Coordinates (Geometry f))"
    by (simp add: list_all_iff)
  have le: "fle (Fin (9 / 2)) (Fin 5)"
    by (simp add: fle_def)
  from count_is_antitone_and_bounded [OF fetched coords, of start] le
  obtain n1 n2 where
    "fst (listQuakes (sampleWorld [''eqk'']) (Fin (9 / 2)) start) = Inr n1"
    "fst (listQuakes (sampleWorld [''eqk'']) (Fin 5) start) = Inr n2" "n2 \<le> n1"
    by blast
  moreover have "fst (listQuakes (sampleWorld [''eqk'']) (Fin (9 / 2)) start) = Inr 2"
    using listQuakes_complete [OF fetched coords, of start] by (simp add: sampleFeed_def sel)
  moreover have "fst (listQuakes (sampleWorld [''eqk'']) (Fin 5) start) = Inr 1"
  proof -
    have "\<forall>f\<in>set (Features sampleFeed). exceeds (Fin 5) f \<longrightarrow> 2 \<le> length (Coordinates (Geometry f))"
      by (simp add: sampleFeed_def sampleFeatures_def exceeds_def fgt_def fless_def)
    from listQuakes_complete [OF fetched this, of start] show ?thesis
      by (simp add: sampleFeed_def exceeds_sample_5)
  qed
  ultimately show ?thesis
    using fetched two le by simp
qed

end
